theory Spec2Isabelle
  imports Complex_Main
begin

section \<open>The WidgetPosition mixin of alloy-editor\<close>

text \<open>
  The development embeds the methods of the class \<^verbatim>\<open>WidgetPosition\<close>
  (\<^verbatim>\<open>src/unnamed/part_000\<close>, second document): the interaction-point resolver
  (\<^verbatim>\<open>getInteractionPoint\<close>, \<^verbatim>\<open>_getXPoint\<close>, \<^verbatim>\<open>_getYPoint\<close>), the viewport
  constraint (\<^verbatim>\<open>getConstrainedPosition\<close>), the placement (\<^verbatim>\<open>getWidgetXYPoint\<close>,
  \<^verbatim>\<open>updatePosition\<close>) and the transition controller (\<^verbatim>\<open>isVisible\<close>, \<^verbatim>\<open>moveToPoint\<close>,
  \<^verbatim>\<open>show\<close>, \<^verbatim>\<open>_animate\<close>, \<^verbatim>\<open>cancelAnimation\<close>).

  Modelling conventions.
  \<^item> JavaScript numbers are modelled as real numbers with exact arithmetic. The values
    \<^verbatim>\<open>NaN\<close> and \<^verbatim>\<open>Infinity\<close> and the rounding of doubles are outside the model; an
    inline style \<^verbatim>\<open>'12px'\<close> is the number \<open>12\<close>, so that \<^verbatim>\<open>parseFloat\<close> of a style
    written as \<^verbatim>\<open>v + 'px'\<close> is \<open>v\<close>.
  \<^item> A value that may be \<^verbatim>\<open>undefined\<close> or \<^verbatim>\<open>null\<close> is an \<open>option\<close>. Reading a property
    of an absent optional object is the error \<open>TypeError\<close>. Objects that the data model
    makes mandatory (the selection data of a payload, its region) are plain records.
  \<^item> The leading underscore of \<^verbatim>\<open>_getXPoint\<close>, \<^verbatim>\<open>_getYPoint\<close>, \<^verbatim>\<open>_animate\<close> and
    \<^verbatim>\<open>_animationFrameId\<close> is dropped; record fields carry a prefix where the bare name
    would clash with another record or with a constant of the library.
  \<^item> The browser (animation frames, view pane size) and the wrapped DOM node are explicit
    state, passed to and returned by the methods that use them.
\<close>

subsection \<open>Data model\<close>

text \<open>The four selection directions of CKEditor; \<open>SELECTION_NONE\<close> stands for any
  other value of \<^verbatim>\<open>region.direction\<close>.\<close>

datatype direction =
    SELECTION_TOP_TO_BOTTOM
  | SELECTION_BOTTOM_TO_TOP
  | SELECTION_LEFT_TO_RIGHT
  | SELECTION_RIGHT_TO_LEFT
  | SELECTION_NONE

datatype error = TypeError

record clientRect =
  rect_left :: real
  rect_top :: real
  rect_right :: real
  rect_bottom :: real

record selectionRegion =
  region_top :: real
  region_bottom :: real
  region_left :: real
  region_right :: real
  region_width :: real
  region_height :: real
  region_direction :: direction
  startRect :: "clientRect option"
  endRect :: "clientRect option"

record selectionData =
  region :: selectionRegion

text \<open>The target element of the native event: the fields the code reads, and the value
  that \<^verbatim>\<open>CKEDITOR.dom.element.getStyle('overflow')\<close> reports for it.\<close>

record eventTarget =
  offsetTop :: real
  offsetHeight :: real
  overflow :: string

record nativeEvent =
  pageX :: "real option"
  target :: "eventTarget option"

record eventPayload =
  selectionData :: selectionData
  nativeEvent :: "nativeEvent option"

record editorEvent =
  data :: "eventPayload option"

record gutter =
  gutter_left :: real
  gutter_top :: real

record props =
  props_editorEvent :: "editorEvent option"
  props_selectionData :: selectionData
  props_gutter :: gutter
  constrainToViewport :: bool

record interactionPoint =
  ip_direction :: direction
  ip_x :: real
  ip_y :: real

text \<open>The local object \<^verbatim>\<open>pos\<close> of \<^verbatim>\<open>getInteractionPoint\<close>: \<^verbatim>\<open>x\<close> is the
  \<^verbatim>\<open>pageX\<close> of the native event, \<^verbatim>\<open>y\<close> is the top of the region.\<close>

record pos =
  pos_x :: "real option"
  pos_y :: real

record attrs =
  attrs_height :: real
  attrs_left :: real
  attrs_top :: real
  attrs_width :: real

record viewPaneSize =
  vps_width :: real

record constrainedPosition =
  cp_x :: real
  cp_y :: real

text \<open>The DOM node of the widget: its measured size, the inline styles the controller
  writes, its classes and the number of \<^verbatim>\<open>transitionend\<close> listeners added to it.\<close>

record domNode =
  offsetWidth :: real
  node_offsetHeight :: real
  style_left :: real
  style_top :: real
  style_opacity :: real
  style_pointerEvents :: string
  classes :: "string list"
  transitionend_listeners :: nat

text \<open>The callback that \<^verbatim>\<open>moveToPoint\<close> hands to \<^verbatim>\<open>_animate\<close>: a closure over the
  end point.\<close>

datatype frameCallback = MoveToEnd real real

text \<open>The browser window: whether \<^verbatim>\<open>requestAnimationFrame\<close> and
  \<^verbatim>\<open>cancelAnimationFrame\<close> exist, the outstanding frame requests in the order they were
  made, the handle the next request returns, and the width of the view pane.\<close>

record window =
  has_requestAnimationFrame :: bool
  has_cancelAnimationFrame :: bool
  frame_requests :: "(nat \<times> frameCallback) list"
  next_handle :: nat
  viewPane_width :: real

text \<open>The scroll container (\<^verbatim>\<open>uiNode\<close>) with its computed margins in pixels.\<close>

record uiNode =
  tagName :: string
  scrollTop :: real
  clientWidth :: real
  margin_left :: real
  margin_right :: real

text \<open>The component instance: \<^verbatim>\<open>ReactDOM.findDOMNode(this)\<close>, \<^verbatim>\<open>this.props\<close>,
  \<^verbatim>\<open>this._animationFrameId\<close>, \<^verbatim>\<open>this.context.editor.get('uiNode')\<close>,
  \<^verbatim>\<open>document.body\<close> and \<^verbatim>\<open>window\<close>.\<close>

record widget =
  findDOMNode :: "domNode option"
  widget_props :: props
  animationFrameId :: "nat option"
  context_uiNode :: "uiNode option"
  document_body :: uiNode
  win :: window

subsection \<open>JavaScript primitives\<close>

text \<open>Truthiness of a number: \<^verbatim>\<open>0\<close> is falsy (as \<^verbatim>\<open>undefined\<close> is, which is
  \<open>None\<close> where a number is optional).\<close>

definition truthy :: "real \<Rightarrow> bool" where
  "truthy v = (v \<noteq> 0)"

text \<open>\<^verbatim>\<open>parseInt(s, 10)\<close> on a computed length \<^verbatim>\<open>v + 'px'\<close>: the integer part of
  \<open>v\<close>, rounded towards zero.\<close>

definition parseInt :: "real \<Rightarrow> real" where
  "parseInt v = (if 0 \<le> v then of_int \<lfloor>v\<rfloor> else of_int \<lceil>v\<rceil>)"

text \<open>\<^verbatim>\<open>addClass\<close>, \<^verbatim>\<open>removeClass\<close> and \<^verbatim>\<open>hasClass\<close> of \<^verbatim>\<open>CKEDITOR.dom.element\<close>.\<close>

definition hasClass :: "domNode \<Rightarrow> string \<Rightarrow> bool" where
  "hasClass n c = (c \<in> set (classes n))"

definition addClass :: "domNode \<Rightarrow> string \<Rightarrow> domNode" where
  "addClass n c = (if c \<in> set (classes n) then n else n\<lparr>classes := classes n @ [c]\<rparr>)"

definition removeClass :: "domNode \<Rightarrow> string \<Rightarrow> domNode" where
  "removeClass n c = n\<lparr>classes := removeAll c (classes n)\<rparr>"

subsection \<open>Interaction-point resolver\<close>

definition getXPoint :: "selectionData \<Rightarrow> real \<Rightarrow> real" where
  "getXPoint sd eventX =
     (let r = region sd;
          left = (case startRect r of Some sr \<Rightarrow> rect_left sr | None \<Rightarrow> region_left r);
          right = (case endRect r of Some er \<Rightarrow> rect_right er | None \<Rightarrow> region_right r)
      in if left < eventX \<and> right > eventX then eventX
         else
           (let leftDist = \<bar>left - eventX\<bar>;
                rightDist = \<bar>right - eventX\<bar>
            in if leftDist < rightDist then left else right))"

definition getYPoint :: "selectionData option \<Rightarrow> nativeEvent option \<Rightarrow> real" where
  "getYPoint sdo neo =
     (case sdo of
        None \<Rightarrow> 0
      | Some sd \<Rightarrow>
          (case neo of
             None \<Rightarrow> 0
           | Some ne \<Rightarrow>
               (case target ne of
                  None \<Rightarrow> region_bottom (region sd)
                | Some t \<Rightarrow>
                    if overflow t = ''auto'' then offsetTop t + offsetHeight t
                    else region_bottom (region sd))))"

text \<open>The direction after the override of lines 195 to 203.\<close>

definition resolvedDirection :: "selectionRegion \<Rightarrow> direction" where
  "resolvedDirection r =
     (case endRect r of
        None \<Rightarrow> region_direction r
      | Some er \<Rightarrow>
          (case startRect r of
             None \<Rightarrow> region_direction r
           | Some sr \<Rightarrow>
               if rect_top sr = rect_top er then SELECTION_BOTTOM_TO_TOP
               else region_direction r))"

text \<open>The local \<^verbatim>\<open>eventPayload\<close> of \<^verbatim>\<open>getInteractionPoint\<close>:
  \<^verbatim>\<open>this.props.editorEvent ? this.props.editorEvent.data : null\<close>.\<close>

definition eventPayloadOf :: "props \<Rightarrow> eventPayload option" where
  "eventPayloadOf p = (case props_editorEvent p of None \<Rightarrow> None | Some ev \<Rightarrow> data ev)"

definition getInteractionPoint :: "props \<Rightarrow> error + interactionPoint option" where
  "getInteractionPoint p =
     (case eventPayloadOf p of
        None \<Rightarrow> Inr None
      | Some payload \<Rightarrow>
          (case nativeEvent payload of
             None \<Rightarrow> Inl TypeError
           | Some ne \<Rightarrow>
               (let sd = selectionData payload;
                    ps = \<lparr>pos_x = pageX ne, pos_y = region_top (region sd)\<rparr>;
                    direction = resolvedDirection (region sd);
                    noPointer =
                      \<lparr>ip_direction = direction,
                       ip_x = region_left (region sd) + region_width (region sd) / 2,
                       ip_y = (if direction = SELECTION_TOP_TO_BOTTOM
                               then getYPoint (Some sd) (Some ne)
                               else region_top (region sd))\<rparr>
                in Inr (Some
                  (case pos_x ps of
                     None \<Rightarrow> noPointer
                   | Some px \<Rightarrow>
                       if truthy px \<and> truthy (pos_y ps) then
                         \<lparr>ip_direction = direction,
                          ip_x = getXPoint sd px,
                          ip_y = (if direction = SELECTION_BOTTOM_TO_TOP
                                  then min (pos_y ps) (region_top (region sd))
                                  else max (pos_y ps) (getYPoint (Some sd) (Some ne)))\<rparr>
                       else noPointer)))))"

subsection \<open>Viewport constraint\<close>

definition getConstrainedPosition ::
    "window \<Rightarrow> attrs \<Rightarrow> viewPaneSize option \<Rightarrow> constrainedPosition" where
  "getConstrainedPosition w a vpo =
     (let viewPane = (case vpo of Some v \<Rightarrow> v | None \<Rightarrow> \<lparr>vps_width = viewPane_width w\<rparr>);
          x = attrs_left a;
          y = attrs_top a;
          x = (if attrs_left a + attrs_width a > vps_width viewPane
               then x - (attrs_left a + attrs_width a - vps_width viewPane) else x);
          y = (if y < 0 then 0 else y)
      in \<lparr>cp_x = x, cp_y = y\<rparr>)"

subsection \<open>Placement\<close>

definition getWidgetXYPoint ::
    "widget \<Rightarrow> real \<Rightarrow> real \<Rightarrow> direction \<Rightarrow> error + (real \<times> real)" where
  "getWidgetXYPoint this anchorLeft anchorTop direction =
     (let g = props_gutter (widget_props this);
          clampXY = (\<lambda>(l, t). ((if l < 0 then 0 else l), (if t < 0 then 0 else t)))
      in if direction = SELECTION_TOP_TO_BOTTOM \<or> direction = SELECTION_BOTTOM_TO_TOP then
           (case findDOMNode this of
              None \<Rightarrow> Inl TypeError
            | Some n \<Rightarrow>
                Inr (clampXY
                  (anchorLeft - gutter_left g - offsetWidth n / 2,
                   (if direction = SELECTION_TOP_TO_BOTTOM then anchorTop + gutter_top g
                    else anchorTop - node_offsetHeight n - gutter_top g))))
         else if direction = SELECTION_LEFT_TO_RIGHT \<or> direction = SELECTION_RIGHT_TO_LEFT then
           (case findDOMNode this of
              None \<Rightarrow> Inl TypeError
            | Some n \<Rightarrow>
                Inr (clampXY
                  ((if direction = SELECTION_LEFT_TO_RIGHT
                    then anchorLeft + gutter_left g + node_offsetHeight n / 2
                    else anchorLeft - (3 * node_offsetHeight n) / 2 - gutter_left g),
                   anchorTop - gutter_top g - node_offsetHeight n / 2)))
         else Inr (clampXY (anchorLeft, anchorTop)))"


subsection \<open>Transition controller\<close>

definition isVisible :: "widget \<Rightarrow> bool" where
  "isVisible this =
     (case findDOMNode this of
        None \<Rightarrow> False
      | Some n \<Rightarrow> hasClass n ''alloy-editor-visible'')"

text \<open>\<^verbatim>\<open>window.cancelAnimationFrame(id)\<close> removes the request with that handle, if it is
  still outstanding.\<close>

definition cancelAnimation :: "widget \<Rightarrow> widget" where
  "cancelAnimation this =
     (if has_cancelAnimationFrame (win this) then
        this\<lparr>win := (win this)\<lparr>frame_requests :=
          filter (\<lambda>(h, cb). Some h \<noteq> animationFrameId this) (frame_requests (win this))\<rparr>\<rparr>
      else this)"

text \<open>The body of the callback of \<^verbatim>\<open>moveToPoint\<close>.\<close>

fun runCallback :: "frameCallback \<Rightarrow> domNode \<Rightarrow> domNode" where
  "runCallback (MoveToEnd endX endY) n =
     (addClass (addClass n ''ae-toolbar-transition'') ''alloy-editor-visible'')
       \<lparr>style_left := endX, style_top := endY, style_opacity := 1\<rparr>"

text \<open>\<^verbatim>\<open>_animate\<close>: \<^verbatim>\<open>window.requestAnimationFrame(callback)\<close> appends the callback to
  the outstanding requests and returns a fresh handle; without it the callback runs at
  once.\<close>

definition animate :: "widget \<Rightarrow> frameCallback \<Rightarrow> widget" where
  "animate this callback =
     (if has_requestAnimationFrame (win this) then
        this\<lparr>animationFrameId := Some (next_handle (win this)),
             win := (win this)
               \<lparr>frame_requests := frame_requests (win this) @ [(next_handle (win this), callback)],
                next_handle := Suc (next_handle (win this))\<rparr>\<rparr>
      else this\<lparr>findDOMNode := map_option (runCallback callback) (findDOMNode this)\<rparr>)"

text \<open>\<^verbatim>\<open>moveToPoint\<close>. The element wrapper of an absent node has no \<^verbatim>\<open>$\<close>, and
  \<^verbatim>\<open>setStyles\<close> on it reads \<^verbatim>\<open>this.$.style\<close>.\<close>

definition moveToPoint :: "widget \<Rightarrow> real \<times> real \<Rightarrow> real \<times> real \<Rightarrow> error + widget" where
  "moveToPoint this startPoint endPoint =
     (case findDOMNode this of
        None \<Rightarrow> Inl TypeError
      | Some n \<Rightarrow>
          (let n1 = n\<lparr>style_left := fst startPoint, style_top := snd startPoint,
                       style_opacity := 0, style_pointerEvents := ''none''\<rparr>;
               n2 = removeClass n1 ''alloy-editor-invisible'';
               this1 = animate (this\<lparr>findDOMNode := Some n2\<rparr>)
                         (MoveToEnd (fst endPoint) (snd endPoint))
           in Inr (this1\<lparr>findDOMNode :=
                     map_option (\<lambda>m. m\<lparr>transitionend_listeners := Suc (transitionend_listeners m)\<rparr>)
                       (findDOMNode this1)\<rparr>)))"

text \<open>\<^verbatim>\<open>show\<close> (the name is a keyword of the prover, hence \<open>showWidget\<close>).\<close>

definition showWidget :: "widget \<Rightarrow> error + widget" where
  "showWidget this =
     (let uiScrollTop = (case context_uiNode this of None \<Rightarrow> 0 | Some u \<Rightarrow> scrollTop u)
      in if \<not> isVisible this then
           (case findDOMNode this of
              None \<Rightarrow> Inr this
            | Some n \<Rightarrow>
                (case getInteractionPoint (widget_props this) of
                   Inl e \<Rightarrow> Inl e
                 | Inr None \<Rightarrow> Inr this
                 | Inr (Some interactionPoint) \<Rightarrow>
                     (let initialX = style_left n;
                          res = (if constrainToViewport (widget_props this) then
                                   getConstrainedPosition (win this)
                                     \<lparr>attrs_height = node_offsetHeight n,
                                      attrs_left = style_left n,
                                      attrs_top = style_top n,
                                      attrs_width = offsetWidth n\<rparr> None
                                 else \<lparr>cp_x = style_left n, cp_y = style_top n\<rparr>);
                          initialY =
                            (if ip_direction interactionPoint = SELECTION_TOP_TO_BOTTOM then
                               region_bottom (region (props_selectionData (widget_props this)))
                                 + uiScrollTop
                             else
                               region_top (region (props_selectionData (widget_props this)))
                                 + uiScrollTop)
                      in moveToPoint this (initialX, initialY) (cp_x res, cp_y res))))
         else Inr this)"

definition updatePosition :: "widget \<Rightarrow> error + widget" where
  "updatePosition this =
     (case getInteractionPoint (widget_props this) of
        Inl e \<Rightarrow> Inl e
      | Inr None \<Rightarrow> Inr this
      | Inr (Some interactionPoint) \<Rightarrow>
          (case findDOMNode this of
             None \<Rightarrow> Inr this
           | Some n \<Rightarrow>
               (let ui = (case context_uiNode this of Some u \<Rightarrow> u | None \<Rightarrow> document_body this);
                    totalWidth = parseInt (margin_left ui) + clientWidth ui + parseInt (margin_right ui);
                    uiScrollTop = (if tagName ui \<noteq> ''BODY'' then scrollTop ui else 0)
                in case getWidgetXYPoint this (ip_x interactionPoint) (ip_y interactionPoint)
                          (ip_direction interactionPoint) of
                     Inl e \<Rightarrow> Inl e
                   | Inr (xy0, xy1) \<Rightarrow>
                       (let xy1 = xy1 + uiScrollTop;
                            xy0 = (if xy0 < 0 then 0 else xy0);
                            xy0 = (if xy0 > totalWidth - offsetWidth n
                                   then totalWidth - offsetWidth n else xy0)
                        in Inr (this\<lparr>findDOMNode :=
                                  Some (n\<lparr>style_left := xy0, style_top := xy1\<rparr>)\<rparr>)))))"

text \<open>The browser runs the outstanding frame callbacks in the order of their requests.\<close>

definition animationFrame :: "widget \<Rightarrow> widget" where
  "animationFrame this =
     this\<lparr>findDOMNode :=
            map_option (fold runCallback (map snd (frame_requests (win this)))) (findDOMNode this),
          win := (win this)\<lparr>frame_requests := []\<rparr>\<rparr>"

text \<open>What is visible of the node: its inline styles and its classes.\<close>

definition stylesAndClasses :: "widget \<Rightarrow> (real \<times> real \<times> real \<times> string \<times> string list) option" where
  "stylesAndClasses this =
     map_option (\<lambda>n. (style_left n, style_top n, style_opacity n, style_pointerEvents n, classes n))
       (findDOMNode this)"

text \<open>A sequence of \<^verbatim>\<open>moveToPoint\<close> calls, stopping at the first error.\<close>

fun moveToPoints :: "widget \<Rightarrow> ((real \<times> real) \<times> (real \<times> real)) list \<Rightarrow> error + widget" where
  "moveToPoints this [] = Inr this"
| "moveToPoints this ((startPoint, endPoint) # rest) =
     (case moveToPoint this startPoint endPoint of
        Inl e \<Rightarrow> Inl e
      | Inr this1 \<Rightarrow> moveToPoints this1 rest)"

subsection \<open>Example inputs\<close>

text \<open>Concrete inputs on which the theorems below are evaluated: a region from \<open>10\<close> to
  \<open>50\<close> without sub-rectangles, a one-line region with both sub-rectangles, a mounted
  widget of \<open>80 \<times> 20\<close> with the default gutter, and the document body as scroll
  container.\<close>

definition example_region :: selectionRegion where
  "example_region =
     \<lparr>region_top = 100, region_bottom = 120, region_left = 10, region_right = 50,
      region_width = 40, region_height = 20, region_direction = SELECTION_LEFT_TO_RIGHT,
      startRect = None, endRect = None\<rparr>"

definition example_target :: eventTarget where
  "example_target = \<lparr>offsetTop = 0, offsetHeight = 300, overflow = ''visible''\<rparr>"

definition example_props :: "real option \<Rightarrow> props" where
  "example_props px =
     \<lparr>props_editorEvent = Some \<lparr>data = Some
        \<lparr>selectionData = \<lparr>region = example_region\<rparr>,
         nativeEvent = Some \<lparr>pageX = px, target = Some example_target\<rparr>\<rparr>\<rparr>,
      props_selectionData = \<lparr>region = example_region\<rparr>,
      props_gutter = \<lparr>gutter_left = 0, gutter_top = 10\<rparr>,
      constrainToViewport = True\<rparr>"

text \<open>A payload without native event, and a one-line selection reported as
  \<^verbatim>\<open>TOP_TO_BOTTOM\<close> inside a scrollable target.\<close>

definition keyboard_props :: props where
  "keyboard_props =
     (example_props None)\<lparr>props_editorEvent := Some \<lparr>data = Some
        \<lparr>selectionData = \<lparr>region = example_region\<rparr>, nativeEvent = None\<rparr>\<rparr>\<rparr>"

definition scrollable_props :: "selectionRegion \<Rightarrow> real option \<Rightarrow> props" where
  "scrollable_props r px =
     (example_props px)\<lparr>props_editorEvent := Some \<lparr>data = Some
        \<lparr>selectionData = \<lparr>region = r\<rparr>,
         nativeEvent = Some \<lparr>pageX = px, target = Some (example_target\<lparr>overflow := ''auto''\<rparr>)\<rparr>\<rparr>\<rparr>\<rparr>"

definition example_node :: domNode where
  "example_node =
     \<lparr>offsetWidth = 80, node_offsetHeight = 20, style_left = 5, style_top = 7,
      style_opacity = 0, style_pointerEvents = '''',
      classes = [''alloy-editor-invisible''], transitionend_listeners = 0\<rparr>"

definition example_body :: uiNode where
  "example_body =
     \<lparr>tagName = ''BODY'', scrollTop = 30, clientWidth = 50, margin_left = 10.5, margin_right = 0\<rparr>"

definition example_window :: window where
  "example_window =
     \<lparr>has_requestAnimationFrame = True, has_cancelAnimationFrame = True,
      frame_requests = [], next_handle = 0, viewPane_width = 1000\<rparr>"

definition widget_with :: "props \<Rightarrow> widget" where
  "widget_with p =
     \<lparr>findDOMNode = Some example_node, widget_props = p,
      animationFrameId = None, context_uiNode = None, document_body = example_body,
      win = example_window\<rparr>"

definition example_widget :: "real option \<Rightarrow> widget" where
  "example_widget px = widget_with (example_props px)"

definition example_rects_region :: selectionRegion where
  "example_rects_region =
     example_region
       \<lparr>region_direction := SELECTION_TOP_TO_BOTTOM,
        startRect := Some \<lparr>rect_left = 20, rect_top = 100, rect_right = 50, rect_bottom = 120\<rparr>,
        endRect := Some \<lparr>rect_left = 10, rect_top = 100, rect_right = 40, rect_bottom = 120\<rparr>\<rparr>"

definition example_attrs :: attrs where
  "example_attrs = \<lparr>attrs_height = 20, attrs_left = 100, attrs_top = -5, attrs_width = 50\<rparr>"

text \<open>The states after one and after two calls of \<^verbatim>\<open>show\<close> on the example widget, and
  after two calls of \<^verbatim>\<open>moveToPoint\<close> with the same points.\<close>

definition shown_once :: widget where
  "shown_once =
     (example_widget (Some 30))
       \<lparr>findDOMNode := Some (example_node
          \<lparr>style_left := 5, style_top := 100, style_opacity := 0,
           style_pointerEvents := ''none'', classes := [], transitionend_listeners := 1\<rparr>),
        animationFrameId := Some 0,
        win := example_window\<lparr>frame_requests := [(0, MoveToEnd 5 7)], next_handle := 1\<rparr>\<rparr>"

definition shown_twice :: widget where
  "shown_twice =
     shown_once
       \<lparr>findDOMNode := Some (example_node
          \<lparr>style_left := 5, style_top := 100, style_opacity := 0,
           style_pointerEvents := ''none'', classes := [], transitionend_listeners := 2\<rparr>),
        animationFrameId := Some 1,
        win := example_window
          \<lparr>frame_requests := [(0, MoveToEnd 5 7), (1, MoveToEnd 5 100)], next_handle := 2\<rparr>\<rparr>"

definition moved_twice :: widget where
  "moved_twice =
     shown_once
       \<lparr>findDOMNode := Some (example_node
          \<lparr>style_left := 5, style_top := 100, style_opacity := 0,
           style_pointerEvents := ''none'', classes := [], transitionend_listeners := 2\<rparr>),
        animationFrameId := Some 1,
        win := example_window
          \<lparr>frame_requests := [(0, MoveToEnd 5 7), (1, MoveToEnd 5 7)], next_handle := 2\<rparr>\<rparr>"

text \<open>A widget that is visible, one that is not mounted, and one in a browser without
  \<^verbatim>\<open>requestAnimationFrame\<close> before and after \<^verbatim>\<open>show\<close>.\<close>

definition visible_widget :: widget where
  "visible_widget =
     (example_widget (Some 30))
       \<lparr>findDOMNode := Some (example_node\<lparr>classes := [''alloy-editor-visible'']\<rparr>)\<rparr>"

definition unmounted_widget :: widget where
  "unmounted_widget = (example_widget (Some 30))\<lparr>findDOMNode := None\<rparr>"

definition sync_widget :: widget where
  "sync_widget =
     (example_widget (Some 30))\<lparr>win := example_window\<lparr>has_requestAnimationFrame := False\<rparr>\<rparr>"

definition shown_sync :: widget where
  "shown_sync =
     sync_widget
       \<lparr>findDOMNode := Some (example_node
          \<lparr>style_left := 5, style_top := 7, style_opacity := 1,
           style_pointerEvents := ''none'',
           classes := [''ae-toolbar-transition'', ''alloy-editor-visible''],
           transitionend_listeners := 1\<rparr>)\<rparr>"

text \<open>A scroll container that is not the body and is wider than the widget.\<close>

definition example_container :: uiNode where
  "example_container =
     \<lparr>tagName = ''DIV'', scrollTop = 30, clientWidth = 500, margin_left = 10.5, margin_right = 0\<rparr>"

definition contained_widget :: widget where
  "contained_widget = (example_widget (Some 30))\<lparr>context_uiNode := Some example_container\<rparr>"

lemmas example_defs =
  example_widget_def widget_with_def example_props_def example_region_def
  example_target_def example_node_def example_body_def example_window_def

lemmas resolver_defs =
  getInteractionPoint_def eventPayloadOf_def getXPoint_def getYPoint_def
  resolvedDirection_def truthy_def

section \<open>Interaction-point resolver: the horizontal anchor\<close>

text \<open>
  Claim C2. With \<open>left\<close> the left of \<^verbatim>\<open>startRect\<close> if present and of the region otherwise,
  and \<open>right\<close> the right of \<^verbatim>\<open>endRect\<close> if present and of the region otherwise,
  \<^verbatim>\<open>_getXPoint\<close> returns the pointer \<open>x\<close> when \<open>left < x < right\<close>; otherwise \<open>left\<close> if
  \<open>\<bar>left - x\<bar> < \<bar>right - x\<bar>\<close>, and \<open>right\<close> otherwise, so that a tie yields \<open>right\<close>.
  For \<open>left = 10\<close> and \<open>right = 50\<close> it returns \<open>30\<close> at \<open>30\<close>, \<open>10\<close> at \<open>5\<close> and \<open>50\<close>
  at \<open>55\<close>. (A tie outside the open interval needs \<open>right \<le> left\<close>; the witness has one,
  with \<open>left = 50\<close>, \<open>right = 10\<close> and \<open>x = 30\<close>.)
\<close>

theorem getXPoint_edges:
  "getXPoint sd x =
     (let left = (case startRect (region sd) of
                    Some sr \<Rightarrow> rect_left sr | None \<Rightarrow> region_left (region sd));
          right = (case endRect (region sd) of
                    Some er \<Rightarrow> rect_right er | None \<Rightarrow> region_right (region sd))
      in if left < x \<and> x < right then x
         else if \<bar>left - x\<bar> < \<bar>right - x\<bar> then left
         else right)
   \<and> getXPoint \<lparr>region = example_region\<rparr> 30 = 30
   \<and> getXPoint \<lparr>region = example_region\<rparr> 5 = 10
   \<and> getXPoint \<lparr>region = example_region\<rparr> 55 = 50"
  by (simp add: getXPoint_def Let_def example_region_def)

theorem getXPoint_edges_witness:
  "getXPoint \<lparr>region = example_rects_region\<rparr> 30 = 30
   \<and> getXPoint \<lparr>region = example_rects_region\<rparr> 15 = 20
   \<and> getXPoint \<lparr>region = example_rects_region\<rparr> 45 = 40
   \<and> getXPoint \<lparr>region = example_region\<rparr> 30 = 30
   \<and> getXPoint \<lparr>region = example_region\<rparr> (-30) = 10
   \<and> getXPoint \<lparr>region = example_region\<lparr>region_left := 50, region_right := 10\<rparr>\<rparr> 30 = 10"
  using getXPoint_edges [of "\<lparr>region = example_rects_region\<rparr>" 30]
        getXPoint_edges [of "\<lparr>region = example_rects_region\<rparr>" 15]
        getXPoint_edges [of "\<lparr>region = example_rects_region\<rparr>" 45]
        getXPoint_edges [of "\<lparr>region = example_region\<rparr>" "-30"]
        getXPoint_edges
          [of "\<lparr>region = example_region\<lparr>region_left := 50, region_right := 10\<rparr>\<rparr>" 30]
  by (simp add: Let_def example_region_def example_rects_region_def)

section \<open>Viewport constraint\<close>

text \<open>
  The example of claim C5 as the specification computes it: for the rectangle with
  \<open>left = 100\<close>, \<open>top = -5\<close>, \<open>width = 50\<close> and a view pane of width \<open>120\<close> the overflow is
  \<open>100 + 50 - 120 = 30\<close>, so \<^verbatim>\<open>getConstrainedPosition\<close> returns \<open>x = 70\<close>, not \<open>90\<close>.
\<close>

theorem getConstrainedPosition_example_counterexample:
  "getConstrainedPosition example_window example_attrs (Some \<lparr>vps_width = 120\<rparr>)
     = \<lparr>cp_x = 70, cp_y = 0\<rparr>
   \<and> getConstrainedPosition example_window example_attrs (Some \<lparr>vps_width = 120\<rparr>)
     \<noteq> \<lparr>cp_x = 90, cp_y = 0\<rparr>"
  by (simp add: getConstrainedPosition_def Let_def example_attrs_def)

text \<open>
  Claim C5, with the example corrected. For every rectangle and every supplied view pane
  \<^verbatim>\<open>getConstrainedPosition\<close> returns \<open>x = left - (left + width - viewWidth)\<close> when
  \<open>left + width > viewWidth\<close> and \<open>x = left\<close> otherwise, and \<open>y = max top 0\<close>. The result
  does not depend on the window when the view pane is supplied. There is no clamp on the
  left edge: \<open>x\<close> can be negative. The rectangle \<open>left = 100\<close>, \<open>top = -5\<close>, \<open>width = 50\<close>
  with view pane width \<open>120\<close> yields \<open>x = 70\<close>, \<open>y = 0\<close>.
\<close>

theorem getConstrainedPosition_right_edge:
  "getConstrainedPosition w a (Some v) =
     \<lparr>cp_x = (if attrs_left a + attrs_width a > vps_width v
              then attrs_left a - (attrs_left a + attrs_width a - vps_width v)
              else attrs_left a),
      cp_y = max (attrs_top a) 0\<rparr>
   \<and> getConstrainedPosition w' a (Some v) = getConstrainedPosition w a (Some v)
   \<and> getConstrainedPosition w example_attrs (Some \<lparr>vps_width = 120\<rparr>) = \<lparr>cp_x = 70, cp_y = 0\<rparr>
   \<and> cp_x (getConstrainedPosition w (example_attrs\<lparr>attrs_left := 0\<rparr>)
        (Some \<lparr>vps_width = 20\<rparr>)) < 0"
  by (simp add: getConstrainedPosition_def Let_def max_def example_attrs_def)

theorem getConstrainedPosition_right_edge_witness:
  "getConstrainedPosition example_window
      \<lparr>attrs_height = 20, attrs_left = 10, attrs_top = 4, attrs_width = 50\<rparr>
      (Some \<lparr>vps_width = 120\<rparr>) = \<lparr>cp_x = 10, cp_y = 4\<rparr>
   \<and> getConstrainedPosition example_window
      \<lparr>attrs_height = 20, attrs_left = 100, attrs_top = -5, attrs_width = 50\<rparr>
      (Some \<lparr>vps_width = 120\<rparr>) = \<lparr>cp_x = 70, cp_y = 0\<rparr>"
  using getConstrainedPosition_right_edge
          [of example_window "\<lparr>attrs_height = 20, attrs_left = 10, attrs_top = 4, attrs_width = 50\<rparr>"
              "\<lparr>vps_width = 120\<rparr>" example_window]
        getConstrainedPosition_right_edge
          [of example_window "\<lparr>attrs_height = 20, attrs_left = 100, attrs_top = -5, attrs_width = 50\<rparr>"
              "\<lparr>vps_width = 120\<rparr>" example_window]
  by simp

section \<open>Placement\<close>

text \<open>
  Claim C6. For a mounted widget of size \<open>width \<times> height\<close>, \<^verbatim>\<open>getWidgetXYPoint\<close>
  returns, each coordinate floored at \<open>0\<close>: for \<^verbatim>\<open>TOP_TO_BOTTOM\<close> and \<^verbatim>\<open>BOTTOM_TO_TOP\<close>
  the left \<open>anchorX - gutter.left - width / 2\<close> with the top \<open>anchorY + gutter.top\<close> and
  \<open>anchorY - height - gutter.top\<close>; for \<^verbatim>\<open>LEFT_TO_RIGHT\<close> the left
  \<open>anchorX + gutter.left + height / 2\<close> and for \<^verbatim>\<open>RIGHT_TO_LEFT\<close> the left
  \<open>anchorX - 3 * height / 2 - gutter.left\<close>, both with the top
  \<open>anchorY - gutter.top - height / 2\<close>; for no direction the anchor itself. The anchor
  \<open>(100, 50)\<close> with \<^verbatim>\<open>TOP_TO_BOTTOM\<close>, a widget of \<open>80 \<times> 20\<close> and the gutter \<open>(0, 10)\<close> gives
  \<open>(60, 60)\<close>.
\<close>

theorem getWidgetXYPoint_placement:
  assumes "findDOMNode this = Some n"
  shows "getWidgetXYPoint this anchorX anchorY d =
     (let g = props_gutter (widget_props this);
          width = offsetWidth n;
          height = node_offsetHeight n;
          (left, top) =
            (case d of
               SELECTION_TOP_TO_BOTTOM \<Rightarrow>
                 (anchorX - gutter_left g - width / 2, anchorY + gutter_top g)
             | SELECTION_BOTTOM_TO_TOP \<Rightarrow>
                 (anchorX - gutter_left g - width / 2, anchorY - height - gutter_top g)
             | SELECTION_LEFT_TO_RIGHT \<Rightarrow>
                 (anchorX + gutter_left g + height / 2, anchorY - gutter_top g - height / 2)
             | SELECTION_RIGHT_TO_LEFT \<Rightarrow>
                 (anchorX - (3 * height) / 2 - gutter_left g, anchorY - gutter_top g - height / 2)
             | SELECTION_NONE \<Rightarrow> (anchorX, anchorY))
      in Inr (max left 0, max top 0))"
  using assms by (cases d) (simp_all add: getWidgetXYPoint_def Let_def max_def)

theorem getWidgetXYPoint_placement_witness:
  "findDOMNode (example_widget (Some 30)) = Some example_node
   \<and> getWidgetXYPoint (example_widget (Some 30)) 100 50 SELECTION_TOP_TO_BOTTOM = Inr (60, 60)
   \<and> getWidgetXYPoint (example_widget (Some 30)) 100 50 SELECTION_BOTTOM_TO_TOP = Inr (60, 20)
   \<and> getWidgetXYPoint (example_widget (Some 30)) 100 50 SELECTION_LEFT_TO_RIGHT = Inr (110, 30)
   \<and> getWidgetXYPoint (example_widget (Some 30)) 100 50 SELECTION_RIGHT_TO_LEFT = Inr (70, 30)
   \<and> getWidgetXYPoint (example_widget (Some 30)) 100 50 SELECTION_NONE = Inr (100, 50)
   \<and> getWidgetXYPoint (example_widget (Some 30)) 10 5 SELECTION_BOTTOM_TO_TOP = Inr (0, 0)"
proof -
  have n: "findDOMNode (example_widget (Some 30)) = Some example_node"
    by (simp add: example_widget_def widget_with_def)
  show ?thesis
    using n getWidgetXYPoint_placement [OF n, of 100 50 SELECTION_TOP_TO_BOTTOM]
      getWidgetXYPoint_placement [OF n, of 100 50 SELECTION_BOTTOM_TO_TOP]
      getWidgetXYPoint_placement [OF n, of 100 50 SELECTION_LEFT_TO_RIGHT]
      getWidgetXYPoint_placement [OF n, of 100 50 SELECTION_RIGHT_TO_LEFT]
      getWidgetXYPoint_placement [OF n, of 100 50 SELECTION_NONE]
      getWidgetXYPoint_placement [OF n, of 10 5 SELECTION_BOTTOM_TO_TOP]
    by (simp add: example_widget_def widget_with_def example_node_def example_props_def Let_def)
qed

section \<open>Interaction-point resolver: the vertical anchor and the direction\<close>

lemma getYPoint_cases:
  "getYPoint None neo = 0"
  "getYPoint sdo None = 0"
  "getYPoint (Some sd) (Some ne) =
     (case target ne of
        None \<Rightarrow> region_bottom (region sd)
      | Some t \<Rightarrow> if overflow t = ''auto'' then offsetTop t + offsetHeight t
                  else region_bottom (region sd))"
  by (simp_all add: getYPoint_def split: option.splits)

text \<open>
  Claim C3 as stated fails on two inputs. The guard of \<^verbatim>\<open>getInteractionPoint\<close> is the
  truthiness test \<^verbatim>\<open>pos.x && pos.y\<close>: with \<^verbatim>\<open>pageX = 0\<close> the pointer position is present
  and the region top is \<open>100\<close>, yet the code takes the branch without pointer and returns
  \<open>y = 100\<close>, the region top, where the claim asks for the greater of the pointer \<open>y\<close> and the
  Y-edge result, \<open>120\<close>. And for a payload without native event, which has no usable
  pointer, the code does not return the midpoint of the region: reading
  \<^verbatim>\<open>eventPayload.nativeEvent.pageX\<close> fails.
\<close>

theorem getInteractionPoint_present_unusable_counterexample:
  "getInteractionPoint (example_props (Some 0))
     = Inr (Some \<lparr>ip_direction = SELECTION_LEFT_TO_RIGHT, ip_x = 30, ip_y = 100\<rparr>)
   \<and> max (region_top example_region)
         (getYPoint (Some \<lparr>region = example_region\<rparr>)
            (Some \<lparr>pageX = Some 0, target = Some example_target\<rparr>)) = 120
   \<and> getInteractionPoint keyboard_props = Inl TypeError"
  by (simp add: getInteractionPoint_def eventPayloadOf_def getYPoint_def getXPoint_def
      resolvedDirection_def truthy_def example_props_def example_region_def
      example_target_def keyboard_props_def Let_def)

text \<open>
  Claim C3, amended. For every payload with a native event, \<^verbatim>\<open>getInteractionPoint\<close> returns
  a point whose direction is the possibly overridden direction, where the Y-edge result
  of \<^verbatim>\<open>_getYPoint\<close> is \<^verbatim>\<open>offsetTop + offsetHeight\<close> of the target when its overflow style,
  as \<^verbatim>\<open>getStyle('overflow')\<close> reads it, is \<^verbatim>\<open>auto\<close> and the bottom of the region
  otherwise, and \<open>0\<close> when the selection data or the native event is absent. When \<^verbatim>\<open>pageX\<close> is a number other than \<open>0\<close> and the region top is
  not \<open>0\<close>, \<open>x\<close> is the X-edge result and \<open>y\<close> is the lesser of the pointer \<open>y\<close> (which the code
  takes from the region top) and the region top for \<^verbatim>\<open>BOTTOM_TO_TOP\<close>, and the greater of
  the pointer \<open>y\<close> and the Y-edge result otherwise. When \<^verbatim>\<open>pageX\<close> is absent or \<open>0\<close>, or the
  region top is \<open>0\<close>, \<open>x\<close> is the midpoint \<^verbatim>\<open>region.left + region.width / 2\<close> and \<open>y\<close> is the
  Y-edge result for \<^verbatim>\<open>TOP_TO_BOTTOM\<close> and the region top for any other direction.
\<close>

theorem getInteractionPoint_vertical:
  assumes pl: "eventPayloadOf p = Some payload" and ne: "nativeEvent payload = Some ne"
  shows "\<exists>pt. getInteractionPoint p = Inr (Some pt)
     \<and> (let sd = selectionData payload;
             r = region sd;
             d = resolvedDirection r;
             pointerY = region_top r;
             yEdge = getYPoint (Some sd) (Some ne)
         in ip_direction pt = d
            \<and> yEdge = (case target ne of
                         None \<Rightarrow> region_bottom r
                       | Some t \<Rightarrow> if overflow t = ''auto'' then offsetTop t + offsetHeight t
                                   else region_bottom r)
            \<and> getYPoint None (Some ne) = 0
            \<and> getYPoint (Some sd) None = 0
            \<and> (\<forall>px. pageX ne = Some px \<and> px \<noteq> 0 \<and> region_top r \<noteq> 0 \<longrightarrow>
                  ip_x pt = getXPoint sd px
                  \<and> ip_y pt = (if d = SELECTION_BOTTOM_TO_TOP
                               then min pointerY (region_top r)
                               else max pointerY yEdge))
            \<and> (pageX ne = None \<or> pageX ne = Some 0 \<or> region_top r = 0 \<longrightarrow>
                  ip_x pt = region_left r + region_width r / 2
                  \<and> ip_y pt = (if d = SELECTION_TOP_TO_BOTTOM then yEdge else region_top r)))"
  using assms
  by (auto simp add: getInteractionPoint_def getYPoint_cases truthy_def Let_def
      split: option.splits)

theorem getInteractionPoint_vertical_witness:
  "(\<exists>pt. getInteractionPoint (example_props (Some 30)) = Inr (Some pt)
      \<and> ip_direction pt = SELECTION_LEFT_TO_RIGHT \<and> ip_x pt = 30 \<and> ip_y pt = 120)
   \<and> (\<exists>pt. getInteractionPoint (scrollable_props example_rects_region (Some 30)) = Inr (Some pt)
      \<and> ip_direction pt = SELECTION_BOTTOM_TO_TOP \<and> ip_x pt = 30 \<and> ip_y pt = 100)
   \<and> (\<exists>pt. getInteractionPoint
          (scrollable_props (example_region\<lparr>region_direction := SELECTION_TOP_TO_BOTTOM\<rparr>) None)
          = Inr (Some pt)
      \<and> ip_direction pt = SELECTION_TOP_TO_BOTTOM \<and> ip_x pt = 30 \<and> ip_y pt = 300)
   \<and> (\<exists>pt. getInteractionPoint (example_props (Some 0)) = Inr (Some pt)
      \<and> ip_direction pt = SELECTION_LEFT_TO_RIGHT \<and> ip_x pt = 30 \<and> ip_y pt = 100)"
proof -
  let ?ne = "\<lambda>px. \<lparr>pageX = px, target = Some example_target\<rparr>"
  let ?ne' = "\<lambda>px. \<lparr>pageX = px, target = Some (example_target\<lparr>overflow := ''auto''\<rparr>)\<rparr>"
  let ?pl = "\<lambda>px. \<lparr>selectionData = \<lparr>region = example_region\<rparr>, nativeEvent = Some (?ne px)\<rparr>"
  let ?pl' = "\<lambda>r px. \<lparr>selectionData = \<lparr>region = r\<rparr>, nativeEvent = Some (?ne' px)\<rparr>"
  let ?ttb = "example_region\<lparr>region_direction := SELECTION_TOP_TO_BOTTOM\<rparr>"
  have a: "eventPayloadOf (example_props px) = Some (?pl px)" for px
    by (simp add: eventPayloadOf_def example_props_def)
  have b: "eventPayloadOf (scrollable_props r px) = Some (?pl' r px)" for r px
    by (simp add: eventPayloadOf_def scrollable_props_def example_props_def)
  have n: "nativeEvent (?pl px) = Some (?ne px)" "nativeEvent (?pl' r px) = Some (?ne' px)" for r px
    by simp_all
  show ?thesis
    using getInteractionPoint_vertical [OF a n(1), of "Some 30"]
      getInteractionPoint_vertical [OF b n(2), of example_rects_region "Some 30"]
      getInteractionPoint_vertical [OF b n(2), of ?ttb None]
      getInteractionPoint_vertical [OF a n(1), of "Some 0"]
    by (auto simp add: Let_def resolvedDirection_def getXPoint_def getYPoint_def
        example_region_def example_rects_region_def example_target_def)
qed

text \<open>
  Claim C4. When \<^verbatim>\<open>startRect\<close> and \<^verbatim>\<open>endRect\<close> are both present and have the same top, the
  point that \<^verbatim>\<open>getInteractionPoint\<close> resolves has the direction \<^verbatim>\<open>BOTTOM_TO_TOP\<close>, whatever
  direction the region reports; the only case without a point is the payload without
  native event, where the call fails.
\<close>

theorem getInteractionPoint_single_line:
  assumes "eventPayloadOf p = Some payload"
    and "startRect (region (selectionData payload)) = Some sr"
    and "endRect (region (selectionData payload)) = Some er"
    and "rect_top sr = rect_top er"
  shows "(nativeEvent payload = None \<and> getInteractionPoint p = Inl TypeError)
       \<or> (\<exists>pt. getInteractionPoint p = Inr (Some pt)
              \<and> ip_direction pt = SELECTION_BOTTOM_TO_TOP)"
  using assms
  by (auto simp add: getInteractionPoint_def resolvedDirection_def Let_def
      split: option.splits)

theorem getInteractionPoint_single_line_witness:
  "region_direction example_rects_region = SELECTION_TOP_TO_BOTTOM
   \<and> (\<exists>pt. getInteractionPoint (scrollable_props example_rects_region (Some 30)) = Inr (Some pt)
              \<and> ip_direction pt = SELECTION_BOTTOM_TO_TOP)
   \<and> (\<exists>pt. getInteractionPoint (scrollable_props example_rects_region None) = Inr (Some pt)
              \<and> ip_direction pt = SELECTION_BOTTOM_TO_TOP)"
proof -
  let ?pl = "\<lambda>px. \<lparr>selectionData = \<lparr>region = example_rects_region\<rparr>,
     nativeEvent = Some \<lparr>pageX = px, target = Some (example_target\<lparr>overflow := ''auto''\<rparr>)\<rparr>\<rparr>"
  have a: "eventPayloadOf (scrollable_props example_rects_region px) = Some (?pl px)" for px
    by (simp add: eventPayloadOf_def scrollable_props_def example_props_def)
  have s: "startRect (region (selectionData (?pl px)))
      = Some \<lparr>rect_left = 20, rect_top = 100, rect_right = 50, rect_bottom = 120\<rparr>" for px
    by (simp add: example_rects_region_def example_region_def)
  have e: "endRect (region (selectionData (?pl px)))
      = Some \<lparr>rect_left = 10, rect_top = 100, rect_right = 40, rect_bottom = 120\<rparr>" for px
    by (simp add: example_rects_region_def example_region_def)
  show ?thesis
    using getInteractionPoint_single_line [OF a s e, of "Some 30"]
      getInteractionPoint_single_line [OF a s e, of None]
    by (auto simp add: example_rects_region_def example_region_def)
qed

text \<open>
  Claim C9. When the editor event, or its payload, is absent, \<^verbatim>\<open>getInteractionPoint\<close>
  returns no point, in every state of the widget; it writes nothing (the embedding is a
  function of the props alone), and its callers \<^verbatim>\<open>show\<close> and \<^verbatim>\<open>updatePosition\<close> leave the
  whole state as it is and raise no error.
\<close>

theorem getInteractionPoint_absent_event:
  assumes "eventPayloadOf (widget_props this) = None"
  shows "getInteractionPoint (widget_props this) = Inr None
       \<and> showWidget this = Inr this
       \<and> updatePosition this = Inr this"
  using assms
  by (simp add: getInteractionPoint_def showWidget_def updatePosition_def Let_def
      split: option.splits)

theorem getInteractionPoint_absent_event_witness:
  "eventPayloadOf (widget_props (widget_with (keyboard_props\<lparr>props_editorEvent := None\<rparr>))) = None
   \<and> getInteractionPoint (keyboard_props\<lparr>props_editorEvent := None\<rparr>) = Inr None
   \<and> getInteractionPoint (keyboard_props\<lparr>props_editorEvent := Some \<lparr>data = None\<rparr>\<rparr>) = Inr None
   \<and> showWidget (widget_with (keyboard_props\<lparr>props_editorEvent := None\<rparr>))
       = Inr (widget_with (keyboard_props\<lparr>props_editorEvent := None\<rparr>))
   \<and> updatePosition (widget_with (keyboard_props\<lparr>props_editorEvent := Some \<lparr>data = None\<rparr>\<rparr>))
       = Inr (widget_with (keyboard_props\<lparr>props_editorEvent := Some \<lparr>data = None\<rparr>\<rparr>))"
proof -
  let ?w1 = "widget_with (keyboard_props\<lparr>props_editorEvent := None\<rparr>)"
  let ?w2 = "widget_with (keyboard_props\<lparr>props_editorEvent := Some \<lparr>data = None\<rparr>\<rparr>)"
  have a: "eventPayloadOf (widget_props ?w1) = None" "eventPayloadOf (widget_props ?w2) = None"
    by (simp_all add: eventPayloadOf_def widget_with_def)
  show ?thesis
    using a getInteractionPoint_absent_event [OF a(1)] getInteractionPoint_absent_event [OF a(2)]
    by (simp add: widget_with_def)
qed

text \<open>
  Claim C10. \<^verbatim>\<open>getInteractionPoint\<close> reads \<^verbatim>\<open>eventPayload.nativeEvent.pageX\<close> before any
  branch: for a payload that is present, the call fails exactly when the native event is
  absent, and returns a point exactly when it is present. A payload with selection data
  and no native event never reaches the branch without pointer.
\<close>

theorem getInteractionPoint_nativeEvent_required:
  assumes "eventPayloadOf p = Some payload"
  shows "(getInteractionPoint p = Inl TypeError) = (nativeEvent payload = None)
       \<and> (\<exists>pt. getInteractionPoint p = Inr (Some pt)) = (nativeEvent payload \<noteq> None)"
  using assms
  by (auto simp add: getInteractionPoint_def Let_def split: option.splits)

theorem getInteractionPoint_nativeEvent_required_witness:
  "eventPayloadOf keyboard_props
     = Some \<lparr>selectionData = \<lparr>region = example_region\<rparr>, nativeEvent = None\<rparr>
   \<and> getInteractionPoint keyboard_props = Inl TypeError
   \<and> (\<exists>pt. getInteractionPoint (example_props None) = Inr (Some pt))"
proof -
  have a: "eventPayloadOf keyboard_props
     = Some \<lparr>selectionData = \<lparr>region = example_region\<rparr>, nativeEvent = None\<rparr>"
    by (simp add: eventPayloadOf_def keyboard_props_def example_props_def)
  have b: "eventPayloadOf (example_props None)
     = Some \<lparr>selectionData = \<lparr>region = example_region\<rparr>,
              nativeEvent = Some \<lparr>pageX = None, target = Some example_target\<rparr>\<rparr>"
    by (simp add: eventPayloadOf_def example_props_def)
  show ?thesis
    using a getInteractionPoint_nativeEvent_required [OF a]
      getInteractionPoint_nativeEvent_required [OF b]
    by simp
qed

section \<open>Placement against the scroll container\<close>

lemma getWidgetXYPoint_mounted:
  assumes "findDOMNode this = Some n"
  shows "\<exists>l t. getWidgetXYPoint this x y d = Inr (l, t) \<and> 0 \<le> l \<and> 0 \<le> t"
  using assms by (cases d) (simp_all add: getWidgetXYPoint_def Let_def)

text \<open>
  Claim C7 as stated fails on a widget of width \<open>80\<close> in the document body with client
  width \<open>50\<close>, left margin \<open>10.5\<close> and scroll offset \<open>30\<close>: the left coordinate becomes \<open>-20\<close>,
  below \<open>0\<close>; the total width is \<open>10 + 50 + 0\<close>, since \<^verbatim>\<open>parseInt\<close> drops the fraction of the
  margin; and the top coordinate stays at the computed \<open>100\<close>, since the scroll offset of a
  \<^verbatim>\<open>BODY\<close> is not added.
\<close>

theorem updatePosition_counterexample:
  "updatePosition (example_widget (Some 30))
     = Inr ((example_widget (Some 30))
         \<lparr>findDOMNode := Some (example_node\<lparr>style_left := -20, style_top := 100\<rparr>)\<rparr>)
   \<and> getInteractionPoint (widget_props (example_widget (Some 30)))
     = Inr (Some \<lparr>ip_direction = SELECTION_LEFT_TO_RIGHT, ip_x = 30, ip_y = 120\<rparr>)
   \<and> getWidgetXYPoint (example_widget (Some 30)) 30 120 SELECTION_LEFT_TO_RIGHT = Inr (40, 100)
   \<and> context_uiNode (example_widget (Some 30)) = None
   \<and> scrollTop (document_body (example_widget (Some 30))) = 30
   \<and> margin_left example_body + clientWidth example_body + margin_right example_body
       - offsetWidth example_node = - 19.5"
  by (simp add: updatePosition_def getWidgetXYPoint_def parseInt_def resolver_defs
      example_defs Let_def)

text \<open>
  Claim C7, amended. For every resolvable interaction point and mounted widget,
  \<^verbatim>\<open>updatePosition\<close> sets the top to the computed top plus the \<^verbatim>\<open>scrollTop\<close> of the scroll
  container when that container is not the \<^verbatim>\<open>BODY\<close> (and plus \<open>0\<close> when it is), and the left to
  the lesser of the computed left floored at \<open>0\<close> and \<open>totalWidth - widgetWidth\<close>, where
  \<open>totalWidth\<close> is the sum of the client width and of the integer parts of the two margins
  of the container. The left is never above \<open>totalWidth - widgetWidth\<close>, and it is never
  below \<open>0\<close> when the widget is not wider than \<open>totalWidth\<close>.
\<close>

theorem updatePosition_clamp:
  assumes ip: "getInteractionPoint (widget_props this) = Inr (Some ip)"
    and n: "findDOMNode this = Some n"
  shows "\<exists>left top.
      getWidgetXYPoint this (ip_x ip) (ip_y ip) (ip_direction ip) = Inr (left, top)
    \<and> (let ui = (case context_uiNode this of Some u \<Rightarrow> u | None \<Rightarrow> document_body this);
            totalWidth = parseInt (margin_left ui) + clientWidth ui + parseInt (margin_right ui);
            newLeft = min (max left 0) (totalWidth - offsetWidth n);
            newTop = top + (if tagName ui \<noteq> ''BODY'' then scrollTop ui else 0)
        in updatePosition this
             = Inr (this\<lparr>findDOMNode := Some (n\<lparr>style_left := newLeft, style_top := newTop\<rparr>)\<rparr>)
           \<and> newLeft \<le> totalWidth - offsetWidth n
           \<and> (offsetWidth n \<le> totalWidth \<longrightarrow> 0 \<le> newLeft))"
proof -
  obtain l t where xy: "getWidgetXYPoint this (ip_x ip) (ip_y ip) (ip_direction ip) = Inr (l, t)"
    and "0 \<le> l"
    using getWidgetXYPoint_mounted [OF n] by blast
  then show ?thesis
    using ip n by (auto simp add: updatePosition_def Let_def min_def max_def)
qed

theorem updatePosition_clamp_witness:
  "getInteractionPoint (widget_props contained_widget)
     = Inr (Some \<lparr>ip_direction = SELECTION_LEFT_TO_RIGHT, ip_x = 30, ip_y = 120\<rparr>)
   \<and> findDOMNode contained_widget = Some example_node
   \<and> getWidgetXYPoint contained_widget 30 120 SELECTION_LEFT_TO_RIGHT = Inr (40, 100)
   \<and> updatePosition contained_widget
       = Inr (contained_widget
           \<lparr>findDOMNode := Some (example_node\<lparr>style_left := 40, style_top := 130\<rparr>)\<rparr>)
   \<and> updatePosition (example_widget (Some 30))
       = Inr ((example_widget (Some 30))
           \<lparr>findDOMNode := Some (example_node\<lparr>style_left := -20, style_top := 100\<rparr>)\<rparr>)"
proof -
  have ip: "getInteractionPoint (widget_props contained_widget)
     = Inr (Some \<lparr>ip_direction = SELECTION_LEFT_TO_RIGHT, ip_x = 30, ip_y = 120\<rparr>)"
    and ip': "getInteractionPoint (widget_props (example_widget (Some 30)))
     = Inr (Some \<lparr>ip_direction = SELECTION_LEFT_TO_RIGHT, ip_x = 30, ip_y = 120\<rparr>)"
    by (simp_all add: contained_widget_def resolver_defs example_defs Let_def)
  have n: "findDOMNode contained_widget = Some example_node"
    and n': "findDOMNode (example_widget (Some 30)) = Some example_node"
    by (simp_all add: contained_widget_def example_defs)
  have xy: "getWidgetXYPoint contained_widget 30 120 SELECTION_LEFT_TO_RIGHT = Inr (40, 100)"
    and xy': "getWidgetXYPoint (example_widget (Some 30)) 30 120 SELECTION_LEFT_TO_RIGHT = Inr (40, 100)"
    by (simp_all add: getWidgetXYPoint_def contained_widget_def example_defs Let_def)
  show ?thesis
    using ip n xy updatePosition_clamp [OF ip n] updatePosition_clamp [OF ip' n'] xy'
    by (simp add: Let_def parseInt_def contained_widget_def example_container_def example_defs)
qed

section \<open>Transition controller\<close>

lemma show1: "showWidget (example_widget (Some 30)) = Inr shown_once"
  by (simp add: showWidget_def isVisible_def hasClass_def moveToPoint_def animate_def
      removeClass_def getConstrainedPosition_def resolver_defs example_defs shown_once_def Let_def)

lemma show2: "showWidget shown_once = Inr shown_twice"
  by (simp add: showWidget_def isVisible_def hasClass_def moveToPoint_def animate_def
      removeClass_def getConstrainedPosition_def resolver_defs example_defs shown_once_def
      shown_twice_def Let_def)

lemma showWidget_noop:
  "isVisible this \<or> findDOMNode this = None \<Longrightarrow> showWidget this = Inr this"
  by (auto simp add: showWidget_def Let_def isVisible_def)

lemma moveToPoint_frame:
  "moveToPoint this sp ep = Inr this' \<Longrightarrow>
     widget_props this' = widget_props this
   \<and> context_uiNode this' = context_uiNode this
   \<and> has_requestAnimationFrame (win this') = has_requestAnimationFrame (win this)
   \<and> viewPane_width (win this') = viewPane_width (win this)"
  by (auto simp add: moveToPoint_def animate_def Let_def split: option.splits if_splits)

lemma moveToPoint_sync_visible:
  "\<not> has_requestAnimationFrame (win this) \<Longrightarrow> moveToPoint this sp ep = Inr this' \<Longrightarrow>
     isVisible this'"
  by (auto simp add: moveToPoint_def animate_def Let_def isVisible_def hasClass_def
      addClass_def removeClass_def split: option.splits if_splits)

lemma moveToPoint_pending_styles:
  "has_requestAnimationFrame (win this) \<Longrightarrow> findDOMNode this = Some n \<Longrightarrow>
   moveToPoint this sp ep = Inr this' \<Longrightarrow>
     stylesAndClasses this'
       = Some (fst sp, snd sp, 0, ''none'', removeAll ''alloy-editor-invisible'' (classes n))
   \<and> isVisible this' = isVisible this"
  by (auto simp add: moveToPoint_def animate_def Let_def stylesAndClasses_def isVisible_def
      hasClass_def removeClass_def)

lemma showWidget_cases:
  assumes "showWidget this = Inr this'"
  shows "this' = this
       \<or> (\<exists>n ip. findDOMNode this = Some n \<and> \<not> isVisible this
            \<and> getInteractionPoint (widget_props this) = Inr (Some ip)
            \<and> (\<exists>ep. moveToPoint this
                  (style_left n,
                   (if ip_direction ip = SELECTION_TOP_TO_BOTTOM
                    then region_bottom (region (props_selectionData (widget_props this)))
                    else region_top (region (props_selectionData (widget_props this))))
                   + (case context_uiNode this of None \<Rightarrow> 0 | Some u \<Rightarrow> scrollTop u)) ep
                 = Inr this'))"
  using assms
  by (auto simp add: showWidget_def Let_def split: option.splits sum.splits if_splits)

lemma showWidget_sync:
  assumes "\<not> has_requestAnimationFrame (win this)" and "showWidget this = Inr this'"
  shows "showWidget this' = Inr this'"
  using showWidget_cases [OF assms(2)] assms showWidget_noop moveToPoint_sync_visible
  by metis

lemma showWidget_styles:
  assumes s1: "showWidget this = Inr this1" and s2: "showWidget this1 = Inr this2"
  shows "stylesAndClasses this2 = stylesAndClasses this1"
proof (cases "has_requestAnimationFrame (win this)")
  case False
  then show ?thesis using showWidget_sync s1 s2 by fastforce
next
  case raf: True
  from showWidget_cases [OF s1] show ?thesis
  proof (elim disjE exE conjE)
    assume "this1 = this"
    then show ?thesis using s1 s2 by simp
  next
    fix n and ip :: interactionPoint and ep
    let ?y = "(if ip_direction ip = SELECTION_TOP_TO_BOTTOM
                    then region_bottom (region (props_selectionData (widget_props this)))
                    else region_top (region (props_selectionData (widget_props this))))
                   + (case context_uiNode this of None \<Rightarrow> 0 | Some u \<Rightarrow> scrollTop u)"
    assume n: "findDOMNode this = Some n" and nv: "\<not> isVisible this"
      and ip: "getInteractionPoint (widget_props this) = Inr (Some ip)"
      and mv: "moveToPoint this (style_left n, ?y) ep = Inr this1"
    have fr: "widget_props this1 = widget_props this" "context_uiNode this1 = context_uiNode this"
      "has_requestAnimationFrame (win this1)"
      using moveToPoint_frame [OF mv] raf by simp_all
    have st1: "stylesAndClasses this1
        = Some (style_left n, ?y, 0, ''none'', removeAll ''alloy-editor-invisible'' (classes n))"
      and nv1: "\<not> isVisible this1"
      using moveToPoint_pending_styles [OF raf n mv] nv by simp_all
    from st1 obtain n1 where n1: "findDOMNode this1 = Some n1"
      and l1: "style_left n1 = style_left n"
      and c1: "classes n1 = removeAll ''alloy-editor-invisible'' (classes n)"
      by (auto simp add: stylesAndClasses_def)
    from showWidget_cases [OF s2] show ?thesis
    proof (elim disjE exE conjE)
      assume "this2 = this1"
      then show ?thesis by simp
    next
      fix n' and ip' :: interactionPoint and ep'
      assume n': "findDOMNode this1 = Some n'"
        and ip': "getInteractionPoint (widget_props this1) = Inr (Some ip')"
        and mv': "moveToPoint this1
            (style_left n',
             (if ip_direction ip' = SELECTION_TOP_TO_BOTTOM
              then region_bottom (region (props_selectionData (widget_props this1)))
              else region_top (region (props_selectionData (widget_props this1))))
             + (case context_uiNode this1 of None \<Rightarrow> 0 | Some u \<Rightarrow> scrollTop u)) ep' = Inr this2"
      have "n' = n1" "ip' = ip" using n' n1 ip' ip fr by simp_all
      then show ?thesis
        using moveToPoint_pending_styles [OF fr(3) n' mv'] st1 l1 c1 fr by simp
    qed
  qed
qed

text \<open>
  Claim C8 as stated fails when \<^verbatim>\<open>requestAnimationFrame\<close> is available. The visibility
  marker is added by the frame callback, so after a first \<^verbatim>\<open>show\<close> the widget is not yet
  visible, and a second \<^verbatim>\<open>show\<close> in succession is not ignored: it passes the guard and
  requests a second frame, whose end point is the start position of the first. One call
  leaves the widget at top \<open>7\<close> once the frames have run, two calls leave it at \<open>100\<close>.
\<close>

theorem show_twice_counterexample:
  "showWidget (example_widget (Some 30)) = Inr shown_once
   \<and> \<not> isVisible shown_once
   \<and> showWidget shown_once = Inr shown_twice
   \<and> shown_twice \<noteq> shown_once
   \<and> frame_requests (win shown_once) = [(0, MoveToEnd 5 7)]
   \<and> frame_requests (win shown_twice) = [(0, MoveToEnd 5 7), (1, MoveToEnd 5 100)]
   \<and> map_option style_top (findDOMNode (animationFrame shown_once)) = Some 7
   \<and> map_option style_top (findDOMNode (animationFrame shown_twice)) = Some 100"
  apply (simp add: show1 show2)
  apply (simp add: shown_once_def shown_twice_def isVisible_def hasClass_def animationFrame_def addClass_def example_defs)
  done

lemma showWidget_sync_visible:
  assumes "\<not> has_requestAnimationFrame (win this)" and "findDOMNode this = Some n"
    and "getInteractionPoint (widget_props this) = Inr (Some ip)"
  shows "\<exists>this1. showWidget this = Inr this1 \<and> isVisible this1"
proof (cases "isVisible this")
  case True
  then show ?thesis using showWidget_noop [of this] by blast
next
  case False
  then obtain sp ep where sh: "showWidget this = moveToPoint this sp ep"
    using assms(2,3) by (simp add: showWidget_def Let_def)
  obtain this1 where mv: "moveToPoint this sp ep = Inr this1"
    using assms(2) by (simp add: moveToPoint_def Let_def)
  then show ?thesis
    using sh moveToPoint_sync_visible [OF assms(1) mv] by simp
qed

text \<open>
  Claim C8, amended. \<^verbatim>\<open>show\<close> is a no-op, on the node and on everything else, when the
  widget is already visible or not mounted. Hence a second \<^verbatim>\<open>show\<close> in succession after a
  first is a no-op whenever the first left the widget visible. When
  \<^verbatim>\<open>requestAnimationFrame\<close> is unavailable the callback runs at once: a first \<^verbatim>\<open>show\<close> on a
  mounted widget whose interaction point resolves then leaves the widget visible, and a
  second call after a first that completed is a no-op, whether or not the first changed
  anything. In every state,
  a second \<^verbatim>\<open>show\<close> in succession leaves the styles and the classes of the node as the
  first left them.
\<close>

theorem showWidget_idempotence:
  "(isVisible this \<or> findDOMNode this = None \<longrightarrow> showWidget this = Inr this)
   \<and> (showWidget this = Inr this1 \<and> isVisible this1 \<longrightarrow> showWidget this1 = Inr this1)
   \<and> (showWidget this = Inr this1 \<and> \<not> has_requestAnimationFrame (win this)
         \<longrightarrow> showWidget this1 = Inr this1)
   \<and> (showWidget this = Inr this1 \<and> showWidget this1 = Inr this2
         \<longrightarrow> stylesAndClasses this2 = stylesAndClasses this1)
   \<and> (\<not> has_requestAnimationFrame (win this) \<and> findDOMNode this = Some n
        \<and> getInteractionPoint (widget_props this) = Inr (Some ip)
         \<longrightarrow> (\<exists>this'. showWidget this = Inr this' \<and> isVisible this'
                \<and> showWidget this' = Inr this'))"
proof -
  have "\<exists>this'. showWidget this = Inr this' \<and> isVisible this' \<and> showWidget this' = Inr this'"
    if h: "\<not> has_requestAnimationFrame (win this)" "findDOMNode this = Some n"
      "getInteractionPoint (widget_props this) = Inr (Some ip)"
  proof -
    obtain this' where "showWidget this = Inr this'" and "isVisible this'"
      using showWidget_sync_visible [OF h] by blast
    then show ?thesis using showWidget_noop [of this'] by blast
  qed
  then show ?thesis
    using showWidget_noop [of this] showWidget_noop [of this1] showWidget_sync [of this this1]
      showWidget_styles [of this this1 this2]
    by blast
qed

theorem showWidget_idempotence_witness:
  "isVisible visible_widget \<and> showWidget visible_widget = Inr visible_widget
   \<and> findDOMNode unmounted_widget = None \<and> showWidget unmounted_widget = Inr unmounted_widget
   \<and> \<not> has_requestAnimationFrame (win sync_widget)
   \<and> findDOMNode sync_widget = Some example_node
   \<and> getInteractionPoint (widget_props sync_widget)
       = Inr (Some \<lparr>ip_direction = SELECTION_LEFT_TO_RIGHT, ip_x = 30, ip_y = 120\<rparr>)
   \<and> (\<exists>this'. showWidget sync_widget = Inr this' \<and> isVisible this'
          \<and> showWidget this' = Inr this')
   \<and> showWidget sync_widget = Inr shown_sync \<and> isVisible shown_sync
   \<and> showWidget shown_sync = Inr shown_sync
   \<and> showWidget (example_widget (Some 30)) = Inr shown_once
   \<and> showWidget shown_once = Inr shown_twice
   \<and> stylesAndClasses shown_twice = stylesAndClasses shown_once"
proof -
  let ?ip = "\<lparr>ip_direction = SELECTION_LEFT_TO_RIGHT, ip_x = 30, ip_y = 120\<rparr>"
  have v: "isVisible visible_widget"
    by (simp add: visible_widget_def isVisible_def hasClass_def)
  have u: "findDOMNode unmounted_widget = None"
    by (simp add: unmounted_widget_def)
  have r: "\<not> has_requestAnimationFrame (win sync_widget)"
    by (simp add: sync_widget_def)
  have m: "findDOMNode sync_widget = Some example_node"
    by (simp add: sync_widget_def example_defs)
  have i: "getInteractionPoint (widget_props sync_widget) = Inr (Some ?ip)"
    by (simp add: sync_widget_def resolver_defs example_defs Let_def)
  have s: "showWidget sync_widget = Inr shown_sync"
    by (simp add: showWidget_def isVisible_def hasClass_def moveToPoint_def animate_def
      removeClass_def addClass_def getConstrainedPosition_def resolver_defs example_defs
      sync_widget_def shown_sync_def Let_def)
  have vs: "isVisible shown_sync"
    by (simp add: shown_sync_def isVisible_def hasClass_def)
  have 1: "showWidget visible_widget = Inr visible_widget"
    using showWidget_idempotence
        [of visible_widget visible_widget visible_widget example_node ?ip] v
    by blast
  have 2: "showWidget unmounted_widget = Inr unmounted_widget"
    using showWidget_idempotence
        [of unmounted_widget unmounted_widget unmounted_widget example_node ?ip] u
    by blast
  have 3: "showWidget shown_sync = Inr shown_sync"
    using showWidget_idempotence [of sync_widget shown_sync shown_sync example_node ?ip] s r
    by blast
  have 4: "stylesAndClasses shown_twice = stylesAndClasses shown_once"
    using showWidget_idempotence
        [of "example_widget (Some 30)" shown_once shown_twice example_node ?ip]
      show1 show2 by blast
  have 5: "\<exists>this'. showWidget sync_widget = Inr this' \<and> isVisible this'
          \<and> showWidget this' = Inr this'"
    using showWidget_idempotence [of sync_widget shown_sync shown_sync example_node ?ip] r m i
    by blast
  show ?thesis
    using v u r m i s vs 1 2 3 4 5 show1 show2 by blast
qed

lemma moveToPoint_request:
  assumes "findDOMNode this = Some n" and "has_requestAnimationFrame (win this)"
  shows "\<exists>this'. moveToPoint this sp ep = Inr this'
     \<and> findDOMNode this' \<noteq> None
     \<and> has_requestAnimationFrame (win this')
     \<and> frame_requests (win this')
         = frame_requests (win this) @ [(next_handle (win this), MoveToEnd (fst ep) (snd ep))]
     \<and> next_handle (win this') = Suc (next_handle (win this))
     \<and> animationFrameId this' = Some (next_handle (win this))"
  using assms by (simp add: moveToPoint_def animate_def Let_def)

lemma moveToPoints_sequence:
  assumes "findDOMNode this = Some n" and "has_requestAnimationFrame (win this)"
  shows "\<exists>this'. moveToPoints this moves = Inr this'
     \<and> frame_requests (win this')
         = frame_requests (win this)
           @ zip [next_handle (win this) ..< next_handle (win this) + length moves]
               (map (\<lambda>(startPoint, endPoint). MoveToEnd (fst endPoint) (snd endPoint)) moves)
     \<and> length (frame_requests (win this')) = length (frame_requests (win this)) + length moves
     \<and> animationFrameId this'
         = (if moves = [] then animationFrameId this
            else Some (next_handle (win this) + length moves - 1))"
  using assms
proof (induction moves arbitrary: this n)
  case Nil
  then show ?case by simp
next
  case (Cons m moves)
  obtain sp ep where m: "m = (sp, ep)" by (cases m)
  from moveToPoint_request [OF Cons.prems, of sp ep]
  obtain this1 where mv: "moveToPoint this sp ep = Inr this1"
    and n1: "findDOMNode this1 \<noteq> None" and raf1: "has_requestAnimationFrame (win this1)"
    and fr1: "frame_requests (win this1)
         = frame_requests (win this) @ [(next_handle (win this), MoveToEnd (fst ep) (snd ep))]"
    and nh1: "next_handle (win this1) = Suc (next_handle (win this))"
    and id1: "animationFrameId this1 = Some (next_handle (win this))"
    by blast
  from n1 obtain n' where n': "findDOMNode this1 = Some n'" by blast
  from Cons.IH [OF n' raf1]
  obtain this' where rec: "moveToPoints this1 moves = Inr this'"
    and fr: "frame_requests (win this')
         = frame_requests (win this1)
           @ zip [next_handle (win this1) ..< next_handle (win this1) + length moves]
               (map (\<lambda>(startPoint, endPoint). MoveToEnd (fst endPoint) (snd endPoint)) moves)"
    and id: "animationFrameId this'
         = (if moves = [] then animationFrameId this1
            else Some (next_handle (win this1) + length moves - 1))"
    by blast
  have "moveToPoints this (m # moves) = Inr this'"
    using m mv rec by simp
  moreover have "frame_requests (win this')
         = frame_requests (win this)
           @ zip [next_handle (win this) ..< next_handle (win this) + length (m # moves)]
               (map (\<lambda>(startPoint, endPoint). MoveToEnd (fst endPoint) (snd endPoint)) (m # moves))"
  proof -
    have up: "[next_handle (win this) ..< next_handle (win this) + length (m # moves)]
        = next_handle (win this) # [Suc (next_handle (win this)) ..<
            Suc (next_handle (win this)) + length moves]"
      by (subst upt_rec) simp
    show ?thesis
      unfolding up using fr fr1 nh1 m by simp
  qed
  moreover have "animationFrameId this'
         = (if m # moves = [] then animationFrameId this
            else Some (next_handle (win this) + length (m # moves) - 1))"
    using id id1 nh1 by (cases moves) simp_all
  ultimately show ?case by simp
qed

lemma showWidget_request:
  assumes "findDOMNode this = Some n" and "has_requestAnimationFrame (win this)"
  shows "\<not> isVisible this \<and> getInteractionPoint (widget_props this) = Inr (Some ip)
          \<longrightarrow> (\<exists>this' callback. showWidget this = Inr this'
                 \<and> frame_requests (win this')
                     = frame_requests (win this) @ [(next_handle (win this), callback)]
                 \<and> animationFrameId this' = Some (next_handle (win this)))"
  using assms by (simp add: showWidget_def moveToPoint_def animate_def Let_def)

text \<open>
  Claim C1 as stated fails: \<^verbatim>\<open>_animate\<close> requests a frame without cancelling. On a widget
  with no outstanding request, two calls of \<^verbatim>\<open>moveToPoint\<close> leave two requests outstanding;
  \<^verbatim>\<open>cancelAnimation\<close>, which no method of the class calls, would then cancel only the
  second.
\<close>

theorem animate_outstanding_counterexample:
  "frame_requests (win (example_widget (Some 30))) = []
   \<and> moveToPoint (example_widget (Some 30)) (5, 100) (5, 7) = Inr shown_once
   \<and> moveToPoint shown_once (5, 100) (5, 7) = Inr moved_twice
   \<and> frame_requests (win moved_twice) = [(0, MoveToEnd 5 7), (1, MoveToEnd 5 7)]
   \<and> length (frame_requests (win moved_twice)) = 2
   \<and> frame_requests (win (cancelAnimation moved_twice)) = [(0, MoveToEnd 5 7)]"
  by (simp add: moveToPoint_def animate_def removeClass_def cancelAnimation_def example_defs
      shown_once_def moved_twice_def Let_def)

text \<open>
  Claim C1, amended. When \<^verbatim>\<open>requestAnimationFrame\<close> is available, every \<^verbatim>\<open>moveToPoint\<close> on
  a mounted widget, and every \<^verbatim>\<open>show\<close> on a mounted widget that is not visible and whose
  interaction point resolves, adds one request to the outstanding ones and cancels none,
  and \<^verbatim>\<open>_animationFrameId\<close> holds the newest handle only: after a sequence of \<open>k\<close> calls of
  \<^verbatim>\<open>moveToPoint\<close> the requests outstanding before are all still outstanding, followed by
  \<open>k\<close> new ones with consecutive handles.
\<close>

theorem moveToPoints_requests:
  assumes "findDOMNode this = Some n" and "has_requestAnimationFrame (win this)"
  shows "(\<exists>this'. moveToPoints this moves = Inr this'
       \<and> frame_requests (win this')
           = frame_requests (win this)
             @ zip [next_handle (win this) ..< next_handle (win this) + length moves]
                 (map (\<lambda>(startPoint, endPoint). MoveToEnd (fst endPoint) (snd endPoint)) moves)
       \<and> length (frame_requests (win this')) = length (frame_requests (win this)) + length moves
       \<and> animationFrameId this'
           = (if moves = [] then animationFrameId this
              else Some (next_handle (win this) + length moves - 1)))
     \<and> (\<not> isVisible this \<and> getInteractionPoint (widget_props this) = Inr (Some ip)
          \<longrightarrow> (\<exists>this' callback. showWidget this = Inr this'
                 \<and> frame_requests (win this')
                     = frame_requests (win this) @ [(next_handle (win this), callback)]
                 \<and> animationFrameId this' = Some (next_handle (win this))))"
  using moveToPoints_sequence [OF assms, of moves] showWidget_request [OF assms, of ip]
  by blast

theorem moveToPoints_requests_witness:
  "findDOMNode (example_widget (Some 30)) = Some example_node
   \<and> has_requestAnimationFrame (win (example_widget (Some 30)))
   \<and> moveToPoints (example_widget (Some 30)) [((5, 100), (5, 7)), ((5, 100), (5, 7))]
       = Inr moved_twice
   \<and> frame_requests (win moved_twice) = [(0, MoveToEnd 5 7), (1, MoveToEnd 5 7)]
   \<and> animationFrameId moved_twice = Some 1
   \<and> \<not> isVisible (example_widget (Some 30))
   \<and> getInteractionPoint (widget_props (example_widget (Some 30)))
       = Inr (Some \<lparr>ip_direction = SELECTION_LEFT_TO_RIGHT, ip_x = 30, ip_y = 120\<rparr>)
   \<and> (\<exists>this' callback. showWidget (example_widget (Some 30)) = Inr this'
         \<and> frame_requests (win this') = [(0, callback)]
         \<and> animationFrameId this' = Some 0)"
proof -
  let ?ip = "\<lparr>ip_direction = SELECTION_LEFT_TO_RIGHT, ip_x = 30, ip_y = 120\<rparr>"
  let ?moves = "[((5, 100), (5, 7)), ((5, 100), (5, 7))] :: ((real \<times> real) \<times> (real \<times> real)) list"
  have n: "findDOMNode (example_widget (Some 30)) = Some example_node"
    and r: "has_requestAnimationFrame (win (example_widget (Some 30)))"
    by (simp_all add: example_defs)
  have v: "\<not> isVisible (example_widget (Some 30))"
    by (simp add: isVisible_def hasClass_def example_defs)
  have i: "getInteractionPoint (widget_props (example_widget (Some 30))) = Inr (Some ?ip)"
    by (simp add: resolver_defs example_defs Let_def)
  have m: "moveToPoints (example_widget (Some 30)) ?moves = Inr moved_twice"
    by (simp add: moveToPoint_def animate_def removeClass_def example_defs shown_once_def
        moved_twice_def Let_def)
  have q: "frame_requests (win moved_twice) = [(0, MoveToEnd 5 7), (1, MoveToEnd 5 7)]"
    "animationFrameId moved_twice = Some 1"
    by (simp_all add: moved_twice_def)
  have e: "frame_requests (win (example_widget (Some 30))) = []"
    "next_handle (win (example_widget (Some 30))) = 0"
    by (simp_all add: example_defs)
  have s: "\<exists>this' callback. showWidget (example_widget (Some 30)) = Inr this'
         \<and> frame_requests (win this') = [(0, callback)]
         \<and> animationFrameId this' = Some 0"
    using moveToPoints_requests [OF n r, of ?moves ?ip] v i unfolding e by simp
  show ?thesis
    using n r m q v i s by blast
qed

end
